theory Spec2Isabelle
  imports Complex_Main "HOL-Library.Sublist" "HOL-Library.AList"
begin

section \<open>The Google Drive client of \<^verbatim>\<open>src/drive/client.py\<close>\<close>

text \<open>
  The theory embeds the two pieces of \<^verbatim>\<open>client.py\<close> that carry logic, the query
  builder (\<^verbatim>\<open>_make_querystring\<close>, \<^verbatim>\<open>_make_query_clause\<close>,
  \<^verbatim>\<open>_serialize_query_value\<close>) and the resumable branch of
  \<^verbatim>\<open>_execute_file_request\<close> with \<^verbatim>\<open>handle_progressless_iter\<close>, together with the
  two callers \<^verbatim>\<open>list_files\<close> and \<^verbatim>\<open>update_file\<close>.
\<close>

subsection \<open>Python strings\<close>

text \<open>
  The two characters the serializer escapes. A Python source literal \<^verbatim>\<open>"\\"\<close> is the
  one-character string holding a backslash, \<^verbatim>\<open>"\\\\"\<close> holds two of them, and
  \<^verbatim>\<open>"\\'"\<close> is a backslash followed by a single quote.
\<close>

abbreviation backslash :: string where
  "backslash \<equiv> [CHR 0x5C]"

abbreviation squote :: string where
  "squote \<equiv> [CHR 0x27]"

text \<open>
  \<^verbatim>\<open>s.replace(old, new)\<close>: every non-overlapping occurrence of \<open>old\<close>, found from
  the left, becomes \<open>new\<close>. With an empty \<open>old\<close> Python puts \<open>new\<close> before every
  character and at the end.
\<close>

fun replace_nonempty :: "string \<Rightarrow> string \<Rightarrow> string \<Rightarrow> string" where
  "replace_nonempty old new [] = []"
| "replace_nonempty old new (c # cs) =
     (if prefix old (c # cs)
      then new @ replace_nonempty old new (drop (length old - 1) cs)
      else c # replace_nonempty old new cs)"

definition replace :: "string \<Rightarrow> string \<Rightarrow> string \<Rightarrow> string" where
  "replace s old new =
     (if old = [] then new @ concat (map (\<lambda>c. c # new) s)
      else replace_nonempty old new s)"

text \<open>\<^verbatim>\<open>sep.join(parts)\<close>.\<close>

fun join :: "string \<Rightarrow> string list \<Rightarrow> string" where
  "join sep [] = []"
| "join sep [p] = p"
| "join sep (p # q # ps) = p @ sep @ join sep (q # ps)"

text \<open>\<^verbatim>\<open>s.find(sub) != -1\<close>: \<open>sub\<close> occurs in \<open>s\<close>.\<close>

fun found :: "string \<Rightarrow> string \<Rightarrow> bool" where
  "found sub [] = (sub = [])"
| "found sub (c # cs) = (prefix sub (c # cs) \<or> found sub cs)"

text \<open>\<^verbatim>\<open>str(n)\<close> of an integer: decimal digits, with a minus sign below zero.\<close>

fun digits :: "nat \<Rightarrow> string" where
  "digits n =
     (if n < 10 then [''0123456789'' ! n]
      else digits (n div 10) @ [''0123456789'' ! (n mod 10)])"

definition str_int :: "int \<Rightarrow> string" where
  "str_int i = (if i < 0 then ''-'' @ digits (nat (- i)) else digits (nat i))"

subsection \<open>Query values\<close>

text \<open>
  The values a clause carries (\<^verbatim>\<open>value: Any\<close>): the callers in \<^verbatim>\<open>client.py\<close> pass
  \<^verbatim>\<open>False\<close>, strings and whatever \<^verbatim>\<open>parents_in\<close> holds.
\<close>

datatype qvalue = QBool bool | QStr string | QInt int | QNone

text \<open>\<^verbatim>\<open>isinstance(value, bool)\<close>\<close>

fun isinstance_bool :: "qvalue \<Rightarrow> bool" where
  "isinstance_bool (QBool b) = True"
| "isinstance_bool v = False"

text \<open>\<^verbatim>\<open>str(value)\<close>\<close>

fun str :: "qvalue \<Rightarrow> string" where
  "str (QBool b) = (if b then ''True'' else ''False'')"
| "str (QStr s) = s"
| "str (QInt i) = str_int i"
| "str QNone = ''None''"

text \<open>The truth value Python gives a value in \<^verbatim>\<open>if value:\<close>.\<close>

fun truthy :: "qvalue \<Rightarrow> bool" where
  "truthy (QBool b) = b"
| "truthy (QStr s) = (s \<noteq> [])"
| "truthy (QInt i) = (i \<noteq> 0)"
| "truthy QNone = False"

subsection \<open>The query builder\<close>

text \<open>
  \<^verbatim>\<open>
  def _serialize_query_value(self, value):
      if isinstance(value, bool):
          return "true" if value else "false"
      return "'%s'" % str(value).replace("\\", "\\\\").replace("'", "\\'")
  \<close>
\<close>

definition serialize_query_value :: "qvalue \<Rightarrow> string" where
  "serialize_query_value val =
     (if isinstance_bool val then (if truthy val then ''true'' else ''false'')
      else squote @ replace (replace (str val) backslash (backslash @ backslash))
                            squote (backslash @ squote) @ squote)"

text \<open>
  \<^verbatim>\<open>
  def _make_query_clause(self, field, op, value, negation=False):
      svalue = self._serialize_query_value(value)
      if op == "in":
          p = "%s %s %s" % (svalue, op, field)
      else:
          p = "%s %s %s" % (field, op, svalue)
      if negation:
          p = "not %s" % p
      return p
  \<close>
\<close>

definition make_query_clause :: "string \<Rightarrow> string \<Rightarrow> qvalue \<Rightarrow> bool \<Rightarrow> string" where
  "make_query_clause field op val negation =
     (let svalue = serialize_query_value val;
          p = (if op = ''in'' then svalue @ '' '' @ op @ '' '' @ field
               else field @ '' '' @ op @ '' '' @ svalue)
      in if negation then ''not '' @ p else p)"

text \<open>
  The elements of the list \<^verbatim>\<open>clauses\<close>. The annotation is
  \<^verbatim>\<open>List[Tuple[str, str, Any]]\<close>, which Python does not enforce: a tuple with a fourth
  element (a negation flag) can be passed, and the unpacking
  \<^verbatim>\<open>for field, op, value in clauses\<close> then raises
  \<^verbatim>\<open>ValueError: too many values to unpack (expected 3)\<close>.
\<close>

datatype clause = Clause3 string string qvalue | Clause4 string string qvalue bool

text \<open>
  The exceptions that cross the code: \<^verbatim>\<open>apiclient.errors.HttpError\<close> with the status
  of its response (\<^verbatim>\<open>err.resp.status\<close>), \<^verbatim>\<open>httplib2.HttpLib2Error\<close>,
  \<^verbatim>\<open>IOError\<close>, \<^verbatim>\<open>ValueError\<close>, and every other exception. The string is the
  rest of the exception object, so that two raised errors can be told apart.
\<close>

datatype error =
    HttpError int string
  | HttpLib2Error string
  | IOError string
  | ValueError string
  | OtherError string

text \<open>
  \<^verbatim>\<open>
  def _make_querystring(self, clauses, join="and"):
      parts = []
      for field, op, value in clauses:
          parts.append(self._make_query_clause(field, op, value))
      return (" %s " % join).join(parts)
  \<close>
  The loop, with \<open>parts\<close> as its accumulator; it stops at the first tuple that does
  not unpack.
\<close>

fun collect_parts :: "clause list \<Rightarrow> string list \<Rightarrow> error + string list" where
  "collect_parts [] parts = Inr parts"
| "collect_parts (Clause3 field op val # clauses) parts =
     collect_parts clauses (parts @ [make_query_clause field op val False])"
| "collect_parts (Clause4 field op val negate # clauses) parts =
     Inl (ValueError ''too many values to unpack (expected 3)'')"

definition make_querystring :: "clause list \<Rightarrow> string \<Rightarrow> error + string" where
  "make_querystring clauses joiner =
     (case collect_parts clauses [] of
        Inl e \<Rightarrow> Inl e
      | Inr parts \<Rightarrow> Inr (join ('' '' @ joiner @ '' '') parts))"

text \<open>The default of the parameter \<^verbatim>\<open>join\<close>.\<close>

abbreviation default_join :: string where
  "default_join \<equiv> ''and''"

subsection \<open>Requests, responses and the effects of a call\<close>

text \<open>
  What \<^verbatim>\<open>req.next_chunk()\<close> does on one call: it returns the pair
  \<^verbatim>\<open>(progress, response)\<close>, each possibly \<^verbatim>\<open>None\<close>, or raises.
\<close>

datatype ('p, 'j) chunk_result = Chunk "'p option" "'j option" | ChunkRaises error

text \<open>
  The dictionary \<^verbatim>\<open>req.execute()\<close> returns, through the three reads the code makes
  of it: \<^verbatim>\<open>resp["files"]\<close> when \<^verbatim>\<open>"files" in resp\<close>, \<^verbatim>\<open>resp["file"]\<close> when
  \<^verbatim>\<open>"file" in resp\<close>, and \<^verbatim>\<open>resp\<close> itself.
\<close>

datatype 'j response = Response (files_key: "'j list option") (file_key: "'j option") (whole: 'j)

text \<open>
  A request object of the SDK, as far as \<^verbatim>\<open>_execute_file_request\<close> uses it: the truth
  value of \<^verbatim>\<open>req.resumable\<close>, \<^verbatim>\<open>req.uri\<close>, what \<^verbatim>\<open>req.execute()\<close> does, and
  what the call number \<open>i\<close> (from 0) of \<^verbatim>\<open>req.next_chunk()\<close> does.
\<close>

record ('p, 'j) request =
  resumable :: bool
  uri :: string
  execute :: "error + 'j response"
  next_chunk :: "nat \<Rightarrow> ('p, 'j) chunk_result"

text \<open>\<^verbatim>\<open>File(f, client=self, supports_all_drives=...)\<close> of \<^verbatim>\<open>drive.files\<close>.\<close>

datatype 'j drive_file = File 'j bool

text \<open>What a method of the client returns.\<close>

datatype 'j retval = RNone | RFile "'j drive_file" | RFiles "'j drive_file list"

text \<open>
  What a call prints and how long it sleeps, in order:
  \<^item> \<open>Upload p\<close>: \<^verbatim>\<open>print_with_carriage_return('Upload %d%%' % (100 * p.progress()))\<close>;
  \<^item> \<open>GiveUp\<close>: \<^verbatim>\<open>print('Failed to make progress for too many consecutive iterations.')\<close>;
  \<^item> \<open>Caught e t k\<close>: \<^verbatim>\<open>print('Caught exception (%s). Sleeping for %s seconds before retry #%d.' % (str(e), t, k))\<close>;
  \<^item> \<open>Sleep t\<close>: \<^verbatim>\<open>time.sleep(t)\<close>.

  With them, in the same order, the calls of the chunk function:
  \<^item> \<open>NextChunk\<close>: \<^verbatim>\<open>req.next_chunk()\<close> is called.
\<close>

datatype 'p event = NextChunk | Upload 'p | GiveUp | Caught error real nat | Sleep real

text \<open>
  The state outside the local variables: how many times \<^verbatim>\<open>req.next_chunk()\<close> and
  \<^verbatim>\<open>random.random()\<close> have been called, and the events so far (chunk calls, prints
  and sleeps, in the order they happen).
\<close>

record 'p world =
  chunk_calls :: nat
  draws :: nat
  events :: "'p event list"

definition start_world :: "'p world" where
  "start_world = \<lparr>chunk_calls = 0, draws = 0, events = []\<rparr>"

subsection \<open>The resumable transfer loop\<close>

text \<open>\<^verbatim>\<open>RETRYABLE_ERRORS = (httplib2.HttpLib2Error, IOError)\<close>, as the test
  \<^verbatim>\<open>isinstance(err, RETRYABLE_ERRORS)\<close> of an \<^verbatim>\<open>except\<close> clause.\<close>

fun RETRYABLE_ERRORS :: "error \<Rightarrow> bool" where
  "RETRYABLE_ERRORS (HttpLib2Error msg) = True"
| "RETRYABLE_ERRORS (IOError msg) = True"
| "RETRYABLE_ERRORS err = False"

definition NUM_RETRIES :: nat where
  "NUM_RETRIES = 5"

text \<open>
  \<^verbatim>\<open>
  def handle_progressless_iter(error, progressless_iters):
      if progressless_iters > NUM_RETRIES:
          print('Failed to make progress for too many consecutive iterations.')
          raise error
      sleeptime = random.random() * (2**progressless_iters)
      print('Caught exception (%s). Sleeping for %s seconds before retry #%d.'
            % (str(error), sleeptime, progressless_iters))
      time.sleep(sleeptime)
  \<close>
  \<open>rnd i\<close> is what the call number \<open>i\<close> of \<^verbatim>\<open>random.random()\<close> returns.
\<close>

definition handle_progressless_iter ::
  "(nat \<Rightarrow> real) \<Rightarrow> error \<Rightarrow> nat \<Rightarrow> 'p world \<Rightarrow> (error + unit) \<times> 'p world" where
  "handle_progressless_iter rnd err iters w =
     (if iters > NUM_RETRIES
      then (Inl err, w\<lparr>events := events w @ [GiveUp]\<rparr>)
      else let sleeptime = rnd (draws w) * 2 ^ iters
           in (Inr (),
               w\<lparr>draws := draws w + 1,
                 events := events w @ [Caught err sleeptime iters, Sleep sleeptime]\<rparr>))"

text \<open>The local variables of the resumable branch of \<^verbatim>\<open>_execute_file_request\<close>.\<close>

record ('p, 'j) locals =
  progressless_iters :: nat
  response :: "'j option"
  progress :: "'p option"

definition start_locals :: "('p, 'j) locals" where
  "start_locals = \<lparr>progressless_iters = 0, response = None, progress = None\<rparr>"

text \<open>
  \<^verbatim>\<open>if progress: print_with_carriage_return('Upload %d%%' % (100 * progress.progress()))\<close>;
  a progress object is true whenever it is not \<^verbatim>\<open>None\<close>.
\<close>

definition print_progress :: "'p option \<Rightarrow> 'p world \<Rightarrow> 'p world" where
  "print_progress p w =
     (case p of Some q \<Rightarrow> w\<lparr>events := events w @ [Upload q]\<rparr> | None \<Rightarrow> w)"

text \<open>
  The end of the loop body, after the \<^verbatim>\<open>try\<close> statement (an exception object is
  true in \<^verbatim>\<open>if error:\<close>):
  \<^verbatim>\<open>
  if error:
      progressless_iters += 1
      handle_progressless_iter(error, progressless_iters)
  else:
      progressless_iters = 0
  \<close>
\<close>

definition after_try ::
  "(nat \<Rightarrow> real) \<Rightarrow> error option \<Rightarrow> ('p, 'j) locals \<Rightarrow> 'p world
     \<Rightarrow> (error + ('p, 'j) locals) \<times> 'p world" where
  "after_try rnd err l w =
     (case err of
        Some e \<Rightarrow>
          (let l' = l\<lparr>progressless_iters := progressless_iters l + 1\<rparr>
           in case handle_progressless_iter rnd e (progressless_iters l') w of
                (Inl raised, w') \<Rightarrow> (Inl raised, w')
              | (Inr u, w') \<Rightarrow> (Inr l', w'))
      | None \<Rightarrow> (Inr (l\<lparr>progressless_iters := 0\<rparr>), w))"

text \<open>
  One pass through the body of \<^verbatim>\<open>while response is None\<close>:
  \<^verbatim>\<open>
  error = None
  try:
      progress, response = req.next_chunk()
      if progress:
          print_with_carriage_return('Upload %d%%' % (100 * progress.progress()))
  except HttpError as err:
      error = err
      if err.resp.status < 500:
          raise
  except RETRYABLE_ERRORS as err:
      error = err
  \<close>
  followed by \<open>after_try\<close>. An exception that neither clause catches leaves the
  function.
\<close>

definition loop_body ::
  "(nat \<Rightarrow> ('p, 'j) chunk_result) \<Rightarrow> (nat \<Rightarrow> real) \<Rightarrow> ('p, 'j) locals \<Rightarrow> 'p world
     \<Rightarrow> (error + ('p, 'j) locals) \<times> 'p world" where
  "loop_body nxt rnd l w =
     (let w1 = w\<lparr>chunk_calls := chunk_calls w + 1, events := events w @ [NextChunk]\<rparr>
      in case nxt (chunk_calls w) of
           Chunk p r \<Rightarrow>
             after_try rnd None (l\<lparr>response := r, progress := p\<rparr>) (print_progress p w1)
         | ChunkRaises err \<Rightarrow>
             (case err of
                HttpError status msg \<Rightarrow>
                  if status < 500 then (Inl err, w1) else after_try rnd (Some err) l w1
              | _ \<Rightarrow>
                  if RETRYABLE_ERRORS err then after_try rnd (Some err) l w1
                  else (Inl err, w1)))"

text \<open>
  The loop \<^verbatim>\<open>while response is None\<close>. It need not end (a request whose every
  chunk returns \<^verbatim>\<open>(progress, None)\<close> keeps it running), so not returning is the
  value \<open>None\<close>.
\<close>

partial_function (option) transfer_loop ::
  "(nat \<Rightarrow> ('p, 'j) chunk_result) \<Rightarrow> (nat \<Rightarrow> real) \<Rightarrow> ('p, 'j) locals \<Rightarrow> 'p world
     \<Rightarrow> ((error + ('p, 'j) locals) \<times> 'p world) option" where
  "transfer_loop nxt rnd l w =
     (if response l = None
      then (case loop_body nxt rnd l w of
              (Inl raised, w') \<Rightarrow> Some (Inl raised, w')
            | (Inr l', w') \<Rightarrow> transfer_loop nxt rnd l' w')
      else Some (Inr l, w))"

declare transfer_loop.simps [code]

text \<open>
  \<^verbatim>\<open>_execute_file_request(self, req)\<close>. The branch of a request that is not resumable
  returns the files of the response. The resumable branch runs the loop, prints the
  progress once more and ends without a \<^verbatim>\<open>return\<close> statement: the call returns
  \<^verbatim>\<open>None\<close>.
\<close>

definition execute_file_request ::
  "('p, 'j) request \<Rightarrow> (nat \<Rightarrow> real) \<Rightarrow> 'p world
     \<Rightarrow> ((error + 'j retval) \<times> 'p world) option" where
  "execute_file_request req rnd w =
     (if \<not> resumable req then
        (let supports_all_drives = found ''supportsAllDrives=true'' (uri req)
         in case execute req of
              Inl raised \<Rightarrow> Some (Inl raised, w)
            | Inr resp \<Rightarrow>
                (case files_key resp of
                   Some fs \<Rightarrow> Some (Inr (RFiles (map (\<lambda>f. File f supports_all_drives) fs)), w)
                 | None \<Rightarrow>
                     (case file_key resp of
                        Some f \<Rightarrow> Some (Inr (RFile (File f supports_all_drives)), w)
                      | None \<Rightarrow> Some (Inr (RFile (File (whole resp) supports_all_drives)), w))))
      else
        (case transfer_loop (next_chunk req) rnd start_locals w of
           None \<Rightarrow> None
         | Some (Inl raised, w') \<Rightarrow> Some (Inl raised, w')
         | Some (Inr l, w') \<Rightarrow> Some (Inr RNone, print_progress (progress l) w')))"

subsection \<open>The callers: \<^verbatim>\<open>list_files\<close> and \<^verbatim>\<open>update_file\<close>\<close>

text \<open>
  The values of the keyword arguments of \<^verbatim>\<open>files().update(**kw)\<close>: a string, the
  dictionary \<^verbatim>\<open>{"name": name}\<close>, the media object, \<^verbatim>\<open>True\<close>.
\<close>

datatype 'm kwarg = KwStr string | KwBody "(string \<times> string) list" | KwMedia 'm | KwBool bool

text \<open>
  The calls to the SDK's \<^verbatim>\<open>files()\<close> resource that the two methods make, each
  building a request: \<^verbatim>\<open>files().list(q=, pageSize=, supportsAllDrives=,
  includeItemsFromAllDrives=)\<close>, its four arguments in this order, and \<^verbatim>\<open>files().update(**kw)\<close>, the dictionary
  \<^verbatim>\<open>kw\<close> in insertion order.
\<close>

datatype 'm api_call =
    FilesList string int bool bool
  | FilesUpdate "(string \<times> 'm kwarg) list"

text \<open>
  What a method did: the requests it had the SDK build, in order, and what it returned
  or raised with the world it left (\<open>None\<close> when it does not return).
\<close>

record ('m, 'p, 'j) outcome =
  built :: "'m api_call list"
  returned :: "((error + 'j retval) \<times> 'p world) option"

text \<open>
  \<^verbatim>\<open>
  def list_files(self, name_equals=None, name_contains=None, mimetype=None,
                 parents_in=None, n=100, supports_all_drives=False):
      query_clauses = [("trashed", "=", False)]
      if name_equals:
          query_clauses.append(("name", "=", name_equals))
      if name_contains:
          query_clauses.append(("name", "contains", name_contains))
      if mimetype:
          query_clauses.append(("mimeType", "=", mimetype))
      if parents_in:
          query_clauses.append(("parents", "in", parents_in))
      q = self._make_querystring(query_clauses)
      return self._execute_file_request(
          self._files.list(q=q, pageSize=n, supportsAllDrives=supports_all_drives,
                           includeItemsFromAllDrives=supports_all_drives))
  \<close>
  An \<^verbatim>\<open>Optional[str]\<close> is true when it is a string that is not empty. \<open>svc\<close> is
  the SDK, from a call to the request object it builds.
\<close>

definition list_files ::
  "('m api_call \<Rightarrow> ('p, 'j) request) \<Rightarrow> (nat \<Rightarrow> real) \<Rightarrow> 'p world
     \<Rightarrow> string option \<Rightarrow> string option \<Rightarrow> string option \<Rightarrow> qvalue \<Rightarrow> int \<Rightarrow> bool
     \<Rightarrow> ('m, 'p, 'j) outcome" where
  "list_files svc rnd w name_equals name_contains mimetype parents_in n supports_all_drives =
     (let query_clauses = [Clause3 ''trashed'' ''='' (QBool False)];
          query_clauses =
            (case name_equals of
               Some s \<Rightarrow> if s \<noteq> [] then query_clauses @ [Clause3 ''name'' ''='' (QStr s)]
                         else query_clauses
             | None \<Rightarrow> query_clauses);
          query_clauses =
            (case name_contains of
               Some s \<Rightarrow> if s \<noteq> [] then query_clauses @ [Clause3 ''name'' ''contains'' (QStr s)]
                         else query_clauses
             | None \<Rightarrow> query_clauses);
          query_clauses =
            (case mimetype of
               Some s \<Rightarrow> if s \<noteq> [] then query_clauses @ [Clause3 ''mimeType'' ''='' (QStr s)]
                         else query_clauses
             | None \<Rightarrow> query_clauses);
          query_clauses =
            (if truthy parents_in then query_clauses @ [Clause3 ''parents'' ''in'' parents_in]
             else query_clauses)
      in case make_querystring query_clauses default_join of
           Inl raised \<Rightarrow> \<lparr>built = [], returned = Some (Inl raised, w)\<rparr>
         | Inr q \<Rightarrow>
             (let call = FilesList q n supports_all_drives supports_all_drives
              in \<lparr>built = [call], returned = execute_file_request (svc call) rnd w\<rparr>))"

text \<open>
  \<^verbatim>\<open>
  def update_file(self, file_id, remove_parents_ids=None, add_parents_ids=None,
                  name=None, media=None, supports_all_drives=False):
      kw = dict(fileId=file_id)
      if remove_parents_ids:
          kw["removeParents"] = ",".join(remove_parents_ids)
      if add_parents_ids:
          kw["addParents"] = ",".join(add_parents_ids)
      if name:
          kw["body"] = {"name": name}
      if media:
          kw["media_body"] = media
      if supports_all_drives:
          kw["supportsAllDrives"] = True
      if len(kw) == 1:  # No modification, only fileId
          return
      return self._execute_file_request(self._files.update(**kw))
  \<close>
  A list of parent ids is true when it is a list that is not empty; a media object
  (\<^verbatim>\<open>MediaIoBaseUpload\<close>) is true whenever it is not \<^verbatim>\<open>None\<close>.
\<close>

definition update_file ::
  "('m api_call \<Rightarrow> ('p, 'j) request) \<Rightarrow> (nat \<Rightarrow> real) \<Rightarrow> 'p world
     \<Rightarrow> string \<Rightarrow> string list option \<Rightarrow> string list option \<Rightarrow> string option \<Rightarrow> 'm option
     \<Rightarrow> bool \<Rightarrow> ('m, 'p, 'j) outcome" where
  "update_file svc rnd w file_id remove_parents_ids add_parents_ids name media supports_all_drives =
     (let kw = [(''fileId'', KwStr file_id)];
          kw = (case remove_parents_ids of
                  Some ids \<Rightarrow> if ids \<noteq> []
                              then AList.update ''removeParents'' (KwStr (join '','' ids)) kw
                              else kw
                | None \<Rightarrow> kw);
          kw = (case add_parents_ids of
                  Some ids \<Rightarrow> if ids \<noteq> []
                              then AList.update ''addParents'' (KwStr (join '','' ids)) kw
                              else kw
                | None \<Rightarrow> kw);
          kw = (case name of
                  Some s \<Rightarrow> if s \<noteq> []
                            then AList.update ''body'' (KwBody [(''name'', s)]) kw
                            else kw
                | None \<Rightarrow> kw);
          kw = (case media of
                  Some m \<Rightarrow> AList.update ''media_body'' (KwMedia m) kw
                | None \<Rightarrow> kw);
          kw = (if supports_all_drives then AList.update ''supportsAllDrives'' (KwBool True) kw
                else kw)
      in if length kw = 1 then \<lparr>built = [], returned = Some (Inr RNone, w)\<rparr>
         else \<lparr>built = [FilesUpdate kw],
               returned = execute_file_request (svc (FilesUpdate kw)) rnd w\<rparr>)"

subsection \<open>Notions used to state the properties\<close>

text \<open>
  A clause list as the annotation \<^verbatim>\<open>List[Tuple[str, str, Any]]\<close> has it: every element
  a triple \<^verbatim>\<open>(field, op, value)\<close>.
\<close>

definition typed_clauses :: "(string \<times> string \<times> qvalue) list \<Rightarrow> clause list" where
  "typed_clauses = map (\<lambda>(field, op, val). Clause3 field op val)"

text \<open>The tuples that \<^verbatim>\<open>for field, op, value in clauses\<close> unpacks.\<close>

fun unpacks :: "clause \<Rightarrow> bool" where
  "unpacks (Clause3 field op val) = True"
| "unpacks (Clause4 field op val negate) = False"

text \<open>
  Escaping in one pass: a backslash becomes two backslashes, a single quote becomes a
  backslash and the quote, every other character stays.
\<close>

definition escape_char :: "char \<Rightarrow> string" where
  "escape_char c =
     (if c = CHR 0x5C then backslash @ backslash
      else if c = CHR 0x27 then backslash @ squote
      else [c])"

text \<open>
  The errors that the specification calls retryable: a transport error, a local I/O
  error, and a server error whose status is 500 or more.
\<close>

fun retryable :: "error \<Rightarrow> bool" where
  "retryable (HttpError status msg) = (status \<ge> 500)"
| "retryable (HttpLib2Error msg) = True"
| "retryable (IOError msg) = True"
| "retryable err = False"

text \<open>The durations of the calls of \<^verbatim>\<open>time.sleep\<close> among the events, in order.\<close>

fun sleeps :: "'p event list \<Rightarrow> real list" where
  "sleeps [] = []"
| "sleeps (Sleep t # es) = t # sleeps es"
| "sleeps (e # es) = sleeps es"

section \<open>Properties\<close>

subsection \<open>The query builder\<close>

lemma serialize_query_value_simps [simp]:
  "serialize_query_value (QBool b) = (if b then ''true'' else ''false'')"
  "serialize_query_value (QStr s) =
     squote @ replace (replace s backslash (backslash @ backslash))
                      squote (backslash @ squote) @ squote"
  "serialize_query_value (QInt i) =
     squote @ replace (replace (str_int i) backslash (backslash @ backslash))
                      squote (backslash @ squote) @ squote"
  "serialize_query_value QNone = squote @ ''None'' @ squote"
  by (simp_all add: serialize_query_value_def replace_def)

lemma collect_parts_typed:
  "collect_parts (typed_clauses cs) parts =
     Inr (parts @ map (\<lambda>(field, op, val). make_query_clause field op val False) cs)"
  by (induction cs arbitrary: parts) (auto simp: typed_clauses_def)

lemma make_querystring_typed:
  "make_querystring (typed_clauses cs) joiner =
     Inr (join ('' '' @ joiner @ '' '')
            (map (\<lambda>(field, op, val). make_query_clause field op val False) cs))"
  by (simp add: make_querystring_def collect_parts_typed)

lemma collect_parts_too_many:
  "\<not> list_all unpacks clauses \<Longrightarrow>
     collect_parts clauses parts = Inl (ValueError ''too many values to unpack (expected 3)'')"
  by (induction clauses parts rule: collect_parts.induct) simp_all

lemma replace_nonempty_char:
  "replace_nonempty [c] new s = concat (map (\<lambda>x. if x = c then new else [x]) s)"
  by (induction s) auto

lemma replace_char:
  "replace s [c] new = concat (map (\<lambda>x. if x = c then new else [x]) s)"
  by (simp add: replace_def replace_nonempty_char)

text \<open>
  Replacing backslashes first and quotes second escapes every character of the string
  exactly once: the backslashes that the second pass adds are not doubled.
\<close>

lemma escape_each_char_once:
  "replace (replace s backslash (backslash @ backslash)) squote (backslash @ squote) =
     concat (map escape_char s)"
  by (induction s) (simp_all add: replace_char escape_char_def)

text \<open>
  Claim C4. For a clause list whose operators are all equality or containment, the
  query builder returns the segments \<open>field op value\<close>, the value serialized, joined
  by the joiner between two spaces (\<open>'' and ''\<close> by default). The list
  \<^verbatim>\<open>[("trashed", "=", False), ("name", "=", "report.pdf")]\<close> gives
  \<^verbatim>\<open>trashed = false and name = 'report.pdf'\<close>, and the empty list gives the empty string.
\<close>

theorem query_joining:
  assumes "list_all (\<lambda>(field, op, val). op = ''='' \<or> op = ''contains'') cs"
  shows "make_querystring (typed_clauses cs) joiner =
           Inr (join ('' '' @ joiner @ '' '')
                  (map (\<lambda>(field, op, val). field @ '' '' @ op @ '' '' @ serialize_query_value val) cs))
       \<and> make_querystring
           (typed_clauses [(''trashed'', ''='', QBool False), (''name'', ''='', QStr ''report.pdf'')])
           default_join = Inr (''trashed = false and name = 'report.pdf'' @ squote)
       \<and> make_querystring (typed_clauses []) joiner = Inr []"
proof -
  have eq: "map (\<lambda>(field, op, val). make_query_clause field op val False) cs =
        map (\<lambda>(field, op, val). field @ '' '' @ op @ '' '' @ serialize_query_value val) cs"
    using assms by (auto simp: make_query_clause_def list_all_iff)
  have "make_querystring (typed_clauses cs) joiner =
           Inr (join ('' '' @ joiner @ '' '')
                  (map (\<lambda>(field, op, val). field @ '' '' @ op @ '' '' @ serialize_query_value val) cs))"
    by (simp only: make_querystring_typed eq)
  moreover have "make_querystring
           (typed_clauses [(''trashed'', ''='', QBool False), (''name'', ''='', QStr ''report.pdf'')])
           default_join = Inr (''trashed = false and name = 'report.pdf'' @ squote)"
    by (simp add: make_querystring_typed make_query_clause_def replace_char)
  moreover have "make_querystring (typed_clauses []) joiner = Inr []"
    by (simp add: make_querystring_typed)
  ultimately show ?thesis by blast
qed

theorem query_joining_witness:
  "list_all (\<lambda>(field, op, val). op = ''='' \<or> op = ''contains'')
     [(''name'', ''contains'', QStr ''a''), (''mimeType'', ''='', QStr ''x'')]
   \<and> make_querystring
       (typed_clauses [(''name'', ''contains'', QStr ''a''), (''mimeType'', ''='', QStr ''x'')]) ''or'' =
     Inr (''name contains 'a' or mimeType = 'x'' @ squote)"
  using query_joining [of "[(''name'', ''contains'', QStr ''a''), (''mimeType'', ''='', QStr ''x'')]" "''or''"]
  by (simp add: replace_char)

text \<open>
  Claim C5. The serializer returns the bare token \<^verbatim>\<open>true\<close> or \<^verbatim>\<open>false\<close> for a
  boolean. Every other value is turned into a string, its backslashes are escaped,
  then its single quotes, and the result is put between single quotes. So
  \<^verbatim>\<open>O'Brien\<close> gives \<^verbatim>\<open>'O\'Brien'\<close>, a backslash in the value is doubled, and in a
  value made of a backslash and a quote the backslash is doubled before the quote gets
  its own.
\<close>

theorem value_serialization:
  "serialize_query_value (QBool True) = ''true''
   \<and> serialize_query_value (QBool False) = ''false''
   \<and> (\<not> isinstance_bool v \<longrightarrow>
        serialize_query_value v =
          squote @ replace (replace (str v) backslash (backslash @ backslash))
                           squote (backslash @ squote) @ squote)
   \<and> serialize_query_value (QStr ''O'Brien'') = squote @ ''O'' @ backslash @ squote @ ''Brien'' @ squote
   \<and> serialize_query_value (QStr (''a'' @ backslash @ ''b'')) =
        squote @ ''a'' @ backslash @ backslash @ ''b'' @ squote
   \<and> serialize_query_value (QStr (backslash @ squote)) =
        squote @ backslash @ backslash @ backslash @ squote @ squote"
proof -
  have "\<not> isinstance_bool v \<longrightarrow>
        serialize_query_value v =
          squote @ replace (replace (str v) backslash (backslash @ backslash))
                           squote (backslash @ squote) @ squote"
    by (simp add: serialize_query_value_def)
  moreover have "serialize_query_value (QStr ''O'Brien'') =
      squote @ ''O'' @ backslash @ squote @ ''Brien'' @ squote"
    by (simp add: replace_char)
  moreover have "serialize_query_value (QStr (''a'' @ backslash @ ''b'')) =
        squote @ ''a'' @ backslash @ backslash @ ''b'' @ squote"
    by (simp add: replace_char)
  moreover have "serialize_query_value (QStr (backslash @ squote)) =
        squote @ backslash @ backslash @ backslash @ squote @ squote"
    by (simp add: replace_char)
  ultimately show ?thesis by simp
qed

theorem value_serialization_witness:
  "\<not> isinstance_bool (QInt (- 42))
   \<and> serialize_query_value (QInt (- 42)) = squote @ ''-42'' @ squote"
  using value_serialization [of "QInt (- 42)"]
  by (simp add: replace_char str_int_def)

text \<open>
  Claim C6. A clause whose operator is \<^verbatim>\<open>in\<close> is rendered value first, as
  \<open>value in field\<close>; a clause with any other operator is rendered as
  \<open>field operator value\<close>, the value serialized in both. The query builder renders a
  membership clause the same way.
\<close>

theorem membership_asymmetry:
  "make_query_clause field ''in'' val False = serialize_query_value val @ '' in '' @ field
   \<and> (op \<noteq> ''in'' \<longrightarrow>
        make_query_clause field op val False = field @ '' '' @ op @ '' '' @ serialize_query_value val)
   \<and> make_querystring [Clause3 field ''in'' val] joiner =
        Inr (serialize_query_value val @ '' in '' @ field)"
  by (simp add: make_query_clause_def make_querystring_def)

theorem membership_asymmetry_witness:
  "''contains'' \<noteq> ''in''
   \<and> make_query_clause ''name'' ''contains'' (QStr ''x'') False = ''name contains 'x'' @ squote
   \<and> make_query_clause ''parents'' ''in'' (QStr ''p'') False = squote @ ''p' in parents''"
  using membership_asymmetry [of "''parents''" "QStr ''p''" "''contains''"]
    membership_asymmetry [of "''name''" "QStr ''x''" "''contains''"]
  by (simp add: replace_char)

text \<open>
  Claim C7, as stated, fails in its last part: negation is not available through the
  clause list of the query builder. A clause that carries a negation flag has four
  elements, and \<^verbatim>\<open>_make_querystring\<close> raises \<^verbatim>\<open>ValueError\<close> on it instead of returning
  \<^verbatim>\<open>not status = 'done'\<close>.
\<close>

theorem negation_through_clause_list_counterexample:
  "make_querystring [Clause4 ''status'' ''='' (QStr ''done'') True] default_join
     \<noteq> Inr (''not status = 'done'' @ squote)
   \<and> make_querystring [Clause4 ''status'' ''='' (QStr ''done'') True] default_join
     = Inl (ValueError ''too many values to unpack (expected 3)'')"
  by (simp add: make_querystring_def)

text \<open>
  Claim C7, amended. The clause renderer \<^verbatim>\<open>_make_query_clause\<close>, called with its
  negation flag set, returns the rendering without negation prefixed with \<open>not\<close> and
  a space; the negated clause \<^verbatim>\<open>(status, =, "done")\<close> renders as
  \<^verbatim>\<open>not status = 'done'\<close>. The query builder takes triples
  \<^verbatim>\<open>(field, op, value)\<close> only and renders each of them without negation; on a clause
  list with a tuple of four elements it raises \<^verbatim>\<open>ValueError\<close>.
\<close>

theorem negation_rendering:
  "make_query_clause field op val True = ''not '' @ make_query_clause field op val False
   \<and> make_query_clause ''status'' ''='' (QStr ''done'') True = ''not status = 'done'' @ squote
   \<and> make_querystring (typed_clauses cs) joiner =
       Inr (join ('' '' @ joiner @ '' '')
              (map (\<lambda>(field, op, val). make_query_clause field op val False) cs))
   \<and> (\<not> list_all unpacks clauses \<longrightarrow>
        make_querystring clauses joiner = Inl (ValueError ''too many values to unpack (expected 3)''))"
proof -
  have "\<not> list_all unpacks clauses \<longrightarrow>
        make_querystring clauses joiner = Inl (ValueError ''too many values to unpack (expected 3)'')"
    by (simp add: make_querystring_def collect_parts_too_many)
  moreover have "make_query_clause ''status'' ''='' (QStr ''done'') True = ''not status = 'done'' @ squote"
    by (simp add: make_query_clause_def replace_char)
  moreover have "make_query_clause field op val True = ''not '' @ make_query_clause field op val False"
    by (simp add: make_query_clause_def Let_def)
  ultimately show ?thesis
    using make_querystring_typed [of cs joiner] by blast
qed

theorem negation_rendering_witness:
  "\<not> list_all unpacks [Clause3 ''trashed'' ''='' (QBool False), Clause4 ''status'' ''='' (QStr ''done'') True]
   \<and> make_querystring
        [Clause3 ''trashed'' ''='' (QBool False), Clause4 ''status'' ''='' (QStr ''done'') True]
        default_join = Inl (ValueError ''too many values to unpack (expected 3)'')"
  using negation_rendering
    [where clauses = "[Clause3 ''trashed'' ''='' (QBool False), Clause4 ''status'' ''='' (QStr ''done'') True]"
       and joiner = default_join]
  by simp

subsection \<open>The resumable transfer loop\<close>

text \<open>
  One pass of the loop body on a chunk call that raises. An error that is not retryable
  leaves the function after the call, with nothing drawn, printed or slept. A retryable
  error is counted; within the budget the pass prints, sleeps and hands the loop its
  local variables, beyond it the pass raises the error.
\<close>

lemma loop_body_fatal:
  assumes "nxt (chunk_calls w) = ChunkRaises e" and "\<not> retryable e"
  shows "loop_body nxt rnd l w =
           (Inl e, w\<lparr>chunk_calls := chunk_calls w + 1, events := events w @ [NextChunk]\<rparr>)"
  using assms by (cases e) (simp_all add: loop_body_def)

lemma loop_body_retryable:
  assumes "nxt (chunk_calls w) = ChunkRaises e" and "retryable e"
  shows "loop_body nxt rnd l w =
           (if 5 \<le> progressless_iters l
            then (Inl e,
                  w\<lparr>chunk_calls := chunk_calls w + 1,
                    events := events w @ [NextChunk, GiveUp]\<rparr>)
            else (Inr (l\<lparr>progressless_iters := progressless_iters l + 1\<rparr>),
                  w\<lparr>chunk_calls := chunk_calls w + 1, draws := draws w + 1,
                    events := events w @
                      [NextChunk,
                       Caught e (rnd (draws w) * 2 ^ (progressless_iters l + 1))
                         (progressless_iters l + 1),
                       Sleep (rnd (draws w) * 2 ^ (progressless_iters l + 1))]\<rparr>))"
  using assms
  by (cases e)
    (simp_all add: loop_body_def after_try_def handle_progressless_iter_def NUM_RETRIES_def Let_def)

text \<open>The loop, unfolded by one pass, for each thing a chunk call can do.\<close>

lemma loop_retry_step:
  assumes "response l = None" and "nxt (chunk_calls w) = ChunkRaises e" and "retryable e"
    and "progressless_iters l < 5"
  shows "transfer_loop nxt rnd l w =
           transfer_loop nxt rnd (l\<lparr>progressless_iters := progressless_iters l + 1\<rparr>)
             (w\<lparr>chunk_calls := chunk_calls w + 1, draws := draws w + 1,
                events := events w @
                  [NextChunk,
                   Caught e (rnd (draws w) * 2 ^ (progressless_iters l + 1)) (progressless_iters l + 1),
                   Sleep (rnd (draws w) * 2 ^ (progressless_iters l + 1))]\<rparr>)"
  apply (subst transfer_loop.simps)
  using assms
  apply (simp add: loop_body_retryable)
  done

lemma loop_giveup_step:
  assumes "response l = None" and "nxt (chunk_calls w) = ChunkRaises e" and "retryable e"
    and "progressless_iters l \<ge> 5"
  shows "transfer_loop nxt rnd l w =
           Some (Inl e, w\<lparr>chunk_calls := chunk_calls w + 1,
                          events := events w @ [NextChunk, GiveUp]\<rparr>)"
  apply (subst transfer_loop.simps)
  using assms
  apply (simp add: loop_body_retryable)
  done

lemma loop_fatal_step:
  assumes "response l = None" and "nxt (chunk_calls w) = ChunkRaises e" and "\<not> retryable e"
  shows "transfer_loop nxt rnd l w =
           Some (Inl e, w\<lparr>chunk_calls := chunk_calls w + 1, events := events w @ [NextChunk]\<rparr>)"
  apply (subst transfer_loop.simps)
  using assms
  apply (simp add: loop_body_fatal)
  done

lemma loop_chunk_step:
  assumes "response l = None" and "nxt (chunk_calls w) = Chunk p r"
  shows "transfer_loop nxt rnd l w =
           transfer_loop nxt rnd (l\<lparr>response := r, progress := p, progressless_iters := 0\<rparr>)
             (print_progress p
                (w\<lparr>chunk_calls := chunk_calls w + 1, events := events w @ [NextChunk]\<rparr>))"
  apply (subst transfer_loop.simps)
  using assms
  apply (simp add: loop_body_def after_try_def)
  done

lemma loop_done: "response l \<noteq> None \<Longrightarrow> transfer_loop nxt rnd l w = Some (Inr l, w)"
  by (subst transfer_loop.simps) auto

text \<open>
  Six chunk calls in a row that raise retryable errors: after each of the first five
  the loop prints and sleeps, then calls again; after the sixth it gives up and raises
  the error of that call.
\<close>

lemma persistent_failure:
  assumes "\<And>i. i < 6 \<Longrightarrow> nxt i = ChunkRaises (errs i) \<and> retryable (errs i)"
  shows "transfer_loop nxt rnd start_locals start_world =
           Some (Inl (errs 5),
                 \<lparr>chunk_calls = 6, draws = 5,
                  events = [NextChunk, Caught (errs 0) (rnd 0 * 2 ^ 1) 1, Sleep (rnd 0 * 2 ^ 1),
                            NextChunk, Caught (errs 1) (rnd 1 * 2 ^ 2) 2, Sleep (rnd 1 * 2 ^ 2),
                            NextChunk, Caught (errs 2) (rnd 2 * 2 ^ 3) 3, Sleep (rnd 2 * 2 ^ 3),
                            NextChunk, Caught (errs 3) (rnd 3 * 2 ^ 4) 4, Sleep (rnd 3 * 2 ^ 4),
                            NextChunk, Caught (errs 4) (rnd 4 * 2 ^ 5) 5, Sleep (rnd 4 * 2 ^ 5),
                            NextChunk, GiveUp]\<rparr>)"
  using assms[of 0] assms[of 1] assms[of 2] assms[of 3] assms[of 4] assms[of 5]
  by (simp add: eval_nat_numeral start_locals_def start_world_def loop_retry_step loop_giveup_step)

lemma RETRYABLE_ERRORS_retryable: "RETRYABLE_ERRORS e \<Longrightarrow> retryable e"
  by (cases e) simp_all

lemma execute_persistent_failure:
  assumes "resumable req"
    and "\<And>i. i < 6 \<Longrightarrow> next_chunk req i = ChunkRaises (errs i) \<and> retryable (errs i)"
  shows "execute_file_request req rnd start_world =
           Some (Inl (errs 5),
                 \<lparr>chunk_calls = 6, draws = 5,
                  events = [NextChunk, Caught (errs 0) (rnd 0 * 2 ^ 1) 1, Sleep (rnd 0 * 2 ^ 1),
                            NextChunk, Caught (errs 1) (rnd 1 * 2 ^ 2) 2, Sleep (rnd 1 * 2 ^ 2),
                            NextChunk, Caught (errs 2) (rnd 2 * 2 ^ 3) 3, Sleep (rnd 2 * 2 ^ 3),
                            NextChunk, Caught (errs 3) (rnd 3 * 2 ^ 4) 4, Sleep (rnd 3 * 2 ^ 4),
                            NextChunk, Caught (errs 4) (rnd 4 * 2 ^ 5) 5, Sleep (rnd 4 * 2 ^ 5),
                            NextChunk, GiveUp]\<rparr>)"
  using assms(1) persistent_failure [of "next_chunk req" errs rnd, OF assms(2)]
  by (simp add: execute_file_request_def)

text \<open>
  Claim C2. When every call of the chunk function raises a transport or I/O error
  (\<^verbatim>\<open>RETRYABLE_ERRORS\<close>), the resumable request ends. Its events, in order, are: the
  first chunk call; five times the message of the caught error, a sleep of
  \<^verbatim>\<open>random() * 2**k\<close> for the retry counter \<open>k\<close> from 1 to 5, and the chunk call
  that is the retry; then the message of giving up. So the chunk function is called
  six times, every retry comes right after its sleep, and no sleep follows the last
  call. Each sleep is below \<open>2 ^ k\<close> when the random numbers are in \<open>[0, 1)\<close>. The
  error raised is the one that the last chunk call raised, as it is.
\<close>

theorem retry_budget_exhaustion:
  assumes "resumable req"
    and "\<And>i. next_chunk req i = ChunkRaises (errs i) \<and> RETRYABLE_ERRORS (errs i)"
  shows "\<exists>w'. execute_file_request req rnd start_world = Some (Inl (errs 5), w')
           \<and> chunk_calls w' = 6 \<and> draws w' = 5
           \<and> events w' =
               [NextChunk, Caught (errs 0) (rnd 0 * 2 ^ 1) 1, Sleep (rnd 0 * 2 ^ 1),
                NextChunk, Caught (errs 1) (rnd 1 * 2 ^ 2) 2, Sleep (rnd 1 * 2 ^ 2),
                NextChunk, Caught (errs 2) (rnd 2 * 2 ^ 3) 3, Sleep (rnd 2 * 2 ^ 3),
                NextChunk, Caught (errs 3) (rnd 3 * 2 ^ 4) 4, Sleep (rnd 3 * 2 ^ 4),
                NextChunk, Caught (errs 4) (rnd 4 * 2 ^ 5) 5, Sleep (rnd 4 * 2 ^ 5),
                NextChunk, GiveUp]
           \<and> sleeps (events w') =
               [rnd 0 * 2 ^ 1, rnd 1 * 2 ^ 2, rnd 2 * 2 ^ 3, rnd 3 * 2 ^ 4, rnd 4 * 2 ^ 5]
           \<and> ((\<forall>i. 0 \<le> rnd i \<and> rnd i < 1) \<longrightarrow>
                list_all2 (\<lambda>t k. 0 \<le> t \<and> t < 2 ^ k) (sleeps (events w')) [1, 2, 3, 4, 5 :: nat])"
proof -
  have "\<And>i. i < 6 \<Longrightarrow> next_chunk req i = ChunkRaises (errs i) \<and> retryable (errs i)"
    using assms(2) RETRYABLE_ERRORS_retryable by blast
  from execute_persistent_failure [OF assms(1) this, of rnd]
  show ?thesis by simp
qed

theorem retry_budget_exhaustion_witness:
  "\<exists>w'. execute_file_request
           \<lparr>resumable = True, uri = [], execute = Inl (OtherError []),
             next_chunk = (\<lambda>i. ChunkRaises (IOError ''reset'') :: (nat, string) chunk_result)\<rparr>
           (\<lambda>i. 1 / 2) start_world = Some (Inl (IOError ''reset''), w')
         \<and> chunk_calls w' = 6 \<and> draws w' = 5
         \<and> events w' =
               [NextChunk, Caught (IOError ''reset'') 1 1, Sleep 1,
                NextChunk, Caught (IOError ''reset'') 2 2, Sleep 2,
                NextChunk, Caught (IOError ''reset'') 4 3, Sleep 4,
                NextChunk, Caught (IOError ''reset'') 8 4, Sleep 8,
                NextChunk, Caught (IOError ''reset'') 16 5, Sleep 16,
                NextChunk, GiveUp]
         \<and> sleeps (events w') = [1, 2, 4, 8, 16]
         \<and> list_all2 (\<lambda>t k. 0 \<le> t \<and> t < 2 ^ k) (sleeps (events w')) [1, 2, 3, 4, 5 :: nat]"
  using retry_budget_exhaustion
    [of "\<lparr>resumable = True, uri = [], execute = Inl (OtherError []),
          next_chunk = (\<lambda>i. ChunkRaises (IOError ''reset'') :: (nat, string) chunk_result)\<rparr>"
        "\<lambda>i. IOError ''reset''" "\<lambda>i. 1 / 2"]
  by simp

text \<open>
  Claim C3. On any pass of the loop, from any state, a chunk call that raises an
  \<^verbatim>\<open>HttpError\<close> with a status below 500 ends the request with that error, as it is:
  after the call no random number is drawn, nothing is printed and nothing is slept.
  In particular a request whose first chunk call raises it makes one call and no
  retry. An \<^verbatim>\<open>HttpError\<close> with a status of 500 or more is handled, on any pass, as
  a transport or I/O error is: with the counter below 5 the pass prints, sleeps
  \<^verbatim>\<open>random() * 2**k\<close> for the new counter \<open>k\<close> and goes on; with the counter at 5
  or more it gives up and raises the error. When every chunk call raises such an
  \<^verbatim>\<open>HttpError\<close> the run is the one of claim C2.
\<close>

theorem fail_fast_on_client_errors:
  "(nxt (chunk_calls w) = ChunkRaises (HttpError status msg) \<and> status < 500 \<longrightarrow>
      loop_body nxt rnd l w =
        (Inl (HttpError status msg),
         w\<lparr>chunk_calls := chunk_calls w + 1, events := events w @ [NextChunk]\<rparr>)
      \<and> (response l = None \<longrightarrow>
           transfer_loop nxt rnd l w =
             Some (Inl (HttpError status msg),
                   w\<lparr>chunk_calls := chunk_calls w + 1, events := events w @ [NextChunk]\<rparr>)))
   \<and> (resumable req \<and> next_chunk req 0 = ChunkRaises (HttpError status msg) \<and> status < 500 \<longrightarrow>
        execute_file_request req rnd start_world =
          Some (Inl (HttpError status msg), \<lparr>chunk_calls = 1, draws = 0, events = [NextChunk]\<rparr>))
   \<and> (nxt (chunk_calls w) = ChunkRaises e
        \<and> ((\<exists>st m. e = HttpError st m \<and> 500 \<le> st) \<or> RETRYABLE_ERRORS e) \<longrightarrow>
        loop_body nxt rnd l w =
          (if 5 \<le> progressless_iters l
           then (Inl e,
                 w\<lparr>chunk_calls := chunk_calls w + 1,
                   events := events w @ [NextChunk, GiveUp]\<rparr>)
           else (Inr (l\<lparr>progressless_iters := progressless_iters l + 1\<rparr>),
                 w\<lparr>chunk_calls := chunk_calls w + 1, draws := draws w + 1,
                   events := events w @
                     [NextChunk,
                      Caught e (rnd (draws w) * 2 ^ (progressless_iters l + 1))
                        (progressless_iters l + 1),
                      Sleep (rnd (draws w) * 2 ^ (progressless_iters l + 1))]\<rparr>)))
   \<and> (resumable req \<and> (\<forall>i. next_chunk req i = ChunkRaises (HttpError (st i) (m i)) \<and> 500 \<le> st i) \<longrightarrow>
        execute_file_request req rnd start_world =
          Some (Inl (HttpError (st 5) (m 5)),
                \<lparr>chunk_calls = 6, draws = 5,
                  events =
                    [NextChunk, Caught (HttpError (st 0) (m 0)) (rnd 0 * 2 ^ 1) 1, Sleep (rnd 0 * 2 ^ 1),
                     NextChunk, Caught (HttpError (st 1) (m 1)) (rnd 1 * 2 ^ 2) 2, Sleep (rnd 1 * 2 ^ 2),
                     NextChunk, Caught (HttpError (st 2) (m 2)) (rnd 2 * 2 ^ 3) 3, Sleep (rnd 2 * 2 ^ 3),
                     NextChunk, Caught (HttpError (st 3) (m 3)) (rnd 3 * 2 ^ 4) 4, Sleep (rnd 3 * 2 ^ 4),
                     NextChunk, Caught (HttpError (st 4) (m 4)) (rnd 4 * 2 ^ 5) 5, Sleep (rnd 4 * 2 ^ 5),
                     NextChunk, GiveUp]\<rparr>))"
proof -
  have a: "nxt (chunk_calls w) = ChunkRaises (HttpError status msg) \<and> status < 500 \<longrightarrow>
      loop_body nxt rnd l w =
        (Inl (HttpError status msg),
         w\<lparr>chunk_calls := chunk_calls w + 1, events := events w @ [NextChunk]\<rparr>)
      \<and> (response l = None \<longrightarrow>
           transfer_loop nxt rnd l w =
             Some (Inl (HttpError status msg),
                   w\<lparr>chunk_calls := chunk_calls w + 1, events := events w @ [NextChunk]\<rparr>))"
  proof (intro impI conjI)
    assume h: "nxt (chunk_calls w) = ChunkRaises (HttpError status msg) \<and> status < 500"
    then have f: "\<not> retryable (HttpError status msg)" by simp
    from h f show "loop_body nxt rnd l w =
        (Inl (HttpError status msg),
         w\<lparr>chunk_calls := chunk_calls w + 1, events := events w @ [NextChunk]\<rparr>)"
      by (simp add: loop_body_fatal)
    assume "response l = None"
    with h f show "transfer_loop nxt rnd l w =
             Some (Inl (HttpError status msg),
                   w\<lparr>chunk_calls := chunk_calls w + 1, events := events w @ [NextChunk]\<rparr>)"
      by (simp add: loop_fatal_step)
  qed
  have b: "resumable req \<and> next_chunk req 0 = ChunkRaises (HttpError status msg) \<and> status < 500 \<longrightarrow>
        execute_file_request req rnd start_world =
          Some (Inl (HttpError status msg), \<lparr>chunk_calls = 1, draws = 0, events = [NextChunk]\<rparr>)"
  proof (intro impI, elim conjE)
    assume r: "resumable req" and n: "next_chunk req 0 = ChunkRaises (HttpError status msg)"
      and s: "status < 500"
    have "transfer_loop (next_chunk req) rnd start_locals start_world =
            Some (Inl (HttpError status msg), \<lparr>chunk_calls = 1, draws = 0, events = [NextChunk]\<rparr>)"
      using n s by (simp add: loop_fatal_step start_locals_def start_world_def)
    then show "execute_file_request req rnd start_world =
        Some (Inl (HttpError status msg), \<lparr>chunk_calls = 1, draws = 0, events = [NextChunk]\<rparr>)"
      using r by (simp add: execute_file_request_def)
  qed
  have c: "nxt (chunk_calls w) = ChunkRaises e
        \<and> ((\<exists>st m. e = HttpError st m \<and> 500 \<le> st) \<or> RETRYABLE_ERRORS e) \<longrightarrow>
        loop_body nxt rnd l w =
          (if 5 \<le> progressless_iters l
           then (Inl e,
                 w\<lparr>chunk_calls := chunk_calls w + 1,
                   events := events w @ [NextChunk, GiveUp]\<rparr>)
           else (Inr (l\<lparr>progressless_iters := progressless_iters l + 1\<rparr>),
                 w\<lparr>chunk_calls := chunk_calls w + 1, draws := draws w + 1,
                   events := events w @
                     [NextChunk,
                      Caught e (rnd (draws w) * 2 ^ (progressless_iters l + 1))
                        (progressless_iters l + 1),
                      Sleep (rnd (draws w) * 2 ^ (progressless_iters l + 1))]\<rparr>))"
  proof (intro impI, elim conjE)
    assume n: "nxt (chunk_calls w) = ChunkRaises e"
      and k: "(\<exists>st m. e = HttpError st m \<and> 500 \<le> st) \<or> RETRYABLE_ERRORS e"
    from k have "retryable e"
      using RETRYABLE_ERRORS_retryable by auto
    with n show "loop_body nxt rnd l w =
          (if 5 \<le> progressless_iters l
           then (Inl e,
                 w\<lparr>chunk_calls := chunk_calls w + 1,
                   events := events w @ [NextChunk, GiveUp]\<rparr>)
           else (Inr (l\<lparr>progressless_iters := progressless_iters l + 1\<rparr>),
                 w\<lparr>chunk_calls := chunk_calls w + 1, draws := draws w + 1,
                   events := events w @
                     [NextChunk,
                      Caught e (rnd (draws w) * 2 ^ (progressless_iters l + 1))
                        (progressless_iters l + 1),
                      Sleep (rnd (draws w) * 2 ^ (progressless_iters l + 1))]\<rparr>))"
      by (rule loop_body_retryable)
  qed
  have d: "resumable req \<and> (\<forall>i. next_chunk req i = ChunkRaises (HttpError (st i) (m i)) \<and> 500 \<le> st i) \<longrightarrow>
        execute_file_request req rnd start_world =
          Some (Inl (HttpError (st 5) (m 5)),
                \<lparr>chunk_calls = 6, draws = 5,
                  events =
                    [NextChunk, Caught (HttpError (st 0) (m 0)) (rnd 0 * 2 ^ 1) 1, Sleep (rnd 0 * 2 ^ 1),
                     NextChunk, Caught (HttpError (st 1) (m 1)) (rnd 1 * 2 ^ 2) 2, Sleep (rnd 1 * 2 ^ 2),
                     NextChunk, Caught (HttpError (st 2) (m 2)) (rnd 2 * 2 ^ 3) 3, Sleep (rnd 2 * 2 ^ 3),
                     NextChunk, Caught (HttpError (st 3) (m 3)) (rnd 3 * 2 ^ 4) 4, Sleep (rnd 3 * 2 ^ 4),
                     NextChunk, Caught (HttpError (st 4) (m 4)) (rnd 4 * 2 ^ 5) 5, Sleep (rnd 4 * 2 ^ 5),
                     NextChunk, GiveUp]\<rparr>)"
  proof (intro impI, elim conjE)
    assume r: "resumable req"
      and n: "\<forall>i. next_chunk req i = ChunkRaises (HttpError (st i) (m i)) \<and> 500 \<le> st i"
    have "\<And>i. i < 6 \<Longrightarrow> next_chunk req i = ChunkRaises (HttpError (st i) (m i))
              \<and> retryable (HttpError (st i) (m i))"
      using n by simp
    from execute_persistent_failure [of req "\<lambda>i. HttpError (st i) (m i)", OF r this]
    show "execute_file_request req rnd start_world =
          Some (Inl (HttpError (st 5) (m 5)),
                \<lparr>chunk_calls = 6, draws = 5,
                  events =
                    [NextChunk, Caught (HttpError (st 0) (m 0)) (rnd 0 * 2 ^ 1) 1, Sleep (rnd 0 * 2 ^ 1),
                     NextChunk, Caught (HttpError (st 1) (m 1)) (rnd 1 * 2 ^ 2) 2, Sleep (rnd 1 * 2 ^ 2),
                     NextChunk, Caught (HttpError (st 2) (m 2)) (rnd 2 * 2 ^ 3) 3, Sleep (rnd 2 * 2 ^ 3),
                     NextChunk, Caught (HttpError (st 3) (m 3)) (rnd 3 * 2 ^ 4) 4, Sleep (rnd 3 * 2 ^ 4),
                     NextChunk, Caught (HttpError (st 4) (m 4)) (rnd 4 * 2 ^ 5) 5, Sleep (rnd 4 * 2 ^ 5),
                     NextChunk, GiveUp]\<rparr>)"
      by simp
  qed
  from a b c d show ?thesis by blast
qed

theorem fail_fast_on_client_errors_witness:
  "transfer_loop
      (\<lambda>i. if i = 3 then ChunkRaises (HttpError 404 ''Not Found'')
            else ChunkRaises (IOError ''reset'') :: (nat, string) chunk_result)
      (\<lambda>i. 1 / 2)
      \<lparr>progressless_iters = 2, response = None, progress = None\<rparr>
      \<lparr>chunk_calls = 3, draws = 2, events = []\<rparr> =
     Some (Inl (HttpError 404 ''Not Found''), \<lparr>chunk_calls = 4, draws = 2, events = [NextChunk]\<rparr>)
   \<and> execute_file_request
      \<lparr>resumable = True, uri = [], execute = Inl (OtherError []),
        next_chunk = (\<lambda>i. ChunkRaises (HttpError 404 ''Not Found'') :: (nat, string) chunk_result)\<rparr>
      (\<lambda>i. 1 / 2) start_world =
     Some (Inl (HttpError 404 ''Not Found''), \<lparr>chunk_calls = 1, draws = 0, events = [NextChunk]\<rparr>)
   \<and> loop_body (\<lambda>i. ChunkRaises (HttpError 503 ''Unavailable'') :: (nat, string) chunk_result)
        (\<lambda>i. 1 / 2)
        \<lparr>progressless_iters = 2, response = None, progress = None\<rparr>
        \<lparr>chunk_calls = 3, draws = 2, events = []\<rparr> =
       (Inr \<lparr>progressless_iters = 3, response = None, progress = None\<rparr>,
        \<lparr>chunk_calls = 4, draws = 3,
          events = [NextChunk, Caught (HttpError 503 ''Unavailable'') 4 3, Sleep 4]\<rparr>)
   \<and> loop_body (\<lambda>i. ChunkRaises (IOError ''reset'') :: (nat, string) chunk_result)
        (\<lambda>i. 1 / 2)
        \<lparr>progressless_iters = 5, response = None, progress = None\<rparr>
        \<lparr>chunk_calls = 5, draws = 5, events = []\<rparr> =
       (Inl (IOError ''reset''), \<lparr>chunk_calls = 6, draws = 5, events = [NextChunk, GiveUp]\<rparr>)
   \<and> execute_file_request
        \<lparr>resumable = True, uri = [], execute = Inl (OtherError []),
          next_chunk = (\<lambda>i. ChunkRaises (HttpError 503 ''Unavailable'') :: (nat, string) chunk_result)\<rparr>
        (\<lambda>i. 1 / 2) start_world =
       Some (Inl (HttpError 503 ''Unavailable''),
             \<lparr>chunk_calls = 6, draws = 5,
               events =
                 [NextChunk, Caught (HttpError 503 ''Unavailable'') 1 1, Sleep 1,
                  NextChunk, Caught (HttpError 503 ''Unavailable'') 2 2, Sleep 2,
                  NextChunk, Caught (HttpError 503 ''Unavailable'') 4 3, Sleep 4,
                  NextChunk, Caught (HttpError 503 ''Unavailable'') 8 4, Sleep 8,
                  NextChunk, Caught (HttpError 503 ''Unavailable'') 16 5, Sleep 16,
                  NextChunk, GiveUp]\<rparr>)"
proof -
  let ?req404 = "\<lparr>resumable = True, uri = [], execute = Inl (OtherError []),
          next_chunk = (\<lambda>i. ChunkRaises (HttpError 404 ''Not Found'') :: (nat, string) chunk_result)\<rparr>"
  let ?req503 = "\<lparr>resumable = True, uri = [], execute = Inl (OtherError []),
          next_chunk = (\<lambda>i. ChunkRaises (HttpError 503 ''Unavailable'') :: (nat, string) chunk_result)\<rparr>"
  have later_404: "transfer_loop
      (\<lambda>i. if i = 3 then ChunkRaises (HttpError 404 ''Not Found'')
            else ChunkRaises (IOError ''reset'') :: (nat, string) chunk_result)
      (\<lambda>i. 1 / 2)
      \<lparr>progressless_iters = 2, response = None, progress = None\<rparr>
      \<lparr>chunk_calls = 3, draws = 2, events = []\<rparr> =
     Some (Inl (HttpError 404 ''Not Found''), \<lparr>chunk_calls = 4, draws = 2, events = [NextChunk]\<rparr>)"
    and first_404: "execute_file_request ?req404 (\<lambda>i. 1 / 2) start_world =
     Some (Inl (HttpError 404 ''Not Found''), \<lparr>chunk_calls = 1, draws = 0, events = [NextChunk]\<rparr>)"
    using fail_fast_on_client_errors
      [where nxt = "\<lambda>i. if i = 3 then ChunkRaises (HttpError 404 ''Not Found'')
                         else ChunkRaises (IOError ''reset'') :: (nat, string) chunk_result"
         and w = "\<lparr>chunk_calls = 3, draws = 2, events = []\<rparr>"
         and l = "\<lparr>progressless_iters = 2, response = None, progress = None\<rparr>"
         and status = 404 and msg = "''Not Found''" and rnd = "\<lambda>i. 1 / 2"
         and req = ?req404 and e = "IOError ''reset''"
         and st = "\<lambda>i. 404" and m = "\<lambda>i. ''Not Found''"]
    by simp_all
  have later_503: "loop_body (\<lambda>i. ChunkRaises (HttpError 503 ''Unavailable'') :: (nat, string) chunk_result)
        (\<lambda>i. 1 / 2)
        \<lparr>progressless_iters = 2, response = None, progress = None\<rparr>
        \<lparr>chunk_calls = 3, draws = 2, events = []\<rparr> =
       (Inr \<lparr>progressless_iters = 3, response = None, progress = None\<rparr>,
        \<lparr>chunk_calls = 4, draws = 3,
          events = [NextChunk, Caught (HttpError 503 ''Unavailable'') 4 3, Sleep 4]\<rparr>)"
    and always_503: "execute_file_request ?req503 (\<lambda>i. 1 / 2) start_world =
       Some (Inl (HttpError 503 ''Unavailable''),
             \<lparr>chunk_calls = 6, draws = 5,
               events =
                 [NextChunk, Caught (HttpError 503 ''Unavailable'') 1 1, Sleep 1,
                  NextChunk, Caught (HttpError 503 ''Unavailable'') 2 2, Sleep 2,
                  NextChunk, Caught (HttpError 503 ''Unavailable'') 4 3, Sleep 4,
                  NextChunk, Caught (HttpError 503 ''Unavailable'') 8 4, Sleep 8,
                  NextChunk, Caught (HttpError 503 ''Unavailable'') 16 5, Sleep 16,
                  NextChunk, GiveUp]\<rparr>)"
    using fail_fast_on_client_errors
      [where nxt = "\<lambda>i. ChunkRaises (HttpError 503 ''Unavailable'') :: (nat, string) chunk_result"
         and w = "\<lparr>chunk_calls = 3, draws = 2, events = []\<rparr>"
         and l = "\<lparr>progressless_iters = 2, response = None, progress = None\<rparr>"
         and status = 503 and msg = "''Unavailable''" and rnd = "\<lambda>i. 1 / 2"
         and req = ?req503 and e = "HttpError 503 ''Unavailable''"
         and st = "\<lambda>i. 503" and m = "\<lambda>i. ''Unavailable''"]
    by simp_all
  have giveup: "loop_body (\<lambda>i. ChunkRaises (IOError ''reset'') :: (nat, string) chunk_result)
        (\<lambda>i. 1 / 2)
        \<lparr>progressless_iters = 5, response = None, progress = None\<rparr>
        \<lparr>chunk_calls = 5, draws = 5, events = []\<rparr> =
       (Inl (IOError ''reset''), \<lparr>chunk_calls = 6, draws = 5, events = [NextChunk, GiveUp]\<rparr>)"
    using fail_fast_on_client_errors
      [where nxt = "\<lambda>i. ChunkRaises (IOError ''reset'') :: (nat, string) chunk_result"
         and w = "\<lparr>chunk_calls = 5, draws = 5, events = []\<rparr>"
         and l = "\<lparr>progressless_iters = 5, response = None, progress = None\<rparr>"
         and status = 404 and msg = "''Not Found''" and rnd = "\<lambda>i. 1 / 2"
         and req = ?req404 and e = "IOError ''reset''"
         and st = "\<lambda>i. 404" and m = "\<lambda>i. ''Not Found''"]
    by simp
  from later_404 first_404 later_503 giveup always_503 show ?thesis
    by (intro conjI)
qed

text \<open>
  Claim C1, at the input where the code departs from it: the chunk function raises
  \<^verbatim>\<open>HttpError\<close> with status 503 twice, then returns a final response. The loop ends
  after three chunk calls and two sleeps, with the response in its local variable and
  the retry counter back at 0; but \<^verbatim>\<open>_execute_file_request\<close> returns \<^verbatim>\<open>None\<close>, not
  the response.
\<close>

theorem resumable_success_returns_None:
  "execute_file_request
      \<lparr>resumable = True, uri = [], execute = Inl (OtherError []),
        next_chunk = (\<lambda>i. if i < 2 then ChunkRaises (HttpError 503 ''Unavailable'')
                           else Chunk None (Some ''final'') :: (nat, string) chunk_result)\<rparr>
      rnd start_world =
     Some (Inr RNone,
           \<lparr>chunk_calls = 3, draws = 2,
             events = [NextChunk,
                       Caught (HttpError 503 ''Unavailable'') (rnd 0 * 2 ^ 1) 1, Sleep (rnd 0 * 2 ^ 1),
                       NextChunk,
                       Caught (HttpError 503 ''Unavailable'') (rnd 1 * 2 ^ 2) 2, Sleep (rnd 1 * 2 ^ 2),
                       NextChunk]\<rparr>)
   \<and> transfer_loop
       (\<lambda>i. if i < 2 then ChunkRaises (HttpError 503 ''Unavailable'')
             else Chunk None (Some ''final'') :: (nat, string) chunk_result)
       rnd start_locals start_world =
     Some (Inr \<lparr>progressless_iters = 0, response = Some ''final'', progress = None\<rparr>,
           \<lparr>chunk_calls = 3, draws = 2,
             events = [NextChunk,
                       Caught (HttpError 503 ''Unavailable'') (rnd 0 * 2 ^ 1) 1, Sleep (rnd 0 * 2 ^ 1),
                       NextChunk,
                       Caught (HttpError 503 ''Unavailable'') (rnd 1 * 2 ^ 2) 2, Sleep (rnd 1 * 2 ^ 2),
                       NextChunk]\<rparr>)"
proof -
  let ?nxt = "\<lambda>i. if i < 2 then ChunkRaises (HttpError 503 ''Unavailable'')
             else Chunk None (Some ''final'') :: (nat, string) chunk_result"
  have "transfer_loop ?nxt rnd start_locals start_world =
     Some (Inr \<lparr>progressless_iters = 0, response = Some ''final'', progress = None\<rparr>,
           \<lparr>chunk_calls = 3, draws = 2,
             events = [NextChunk,
                       Caught (HttpError 503 ''Unavailable'') (rnd 0 * 2 ^ 1) 1, Sleep (rnd 0 * 2 ^ 1),
                       NextChunk,
                       Caught (HttpError 503 ''Unavailable'') (rnd 1 * 2 ^ 2) 2, Sleep (rnd 1 * 2 ^ 2),
                       NextChunk]\<rparr>)"
    by (simp add: eval_nat_numeral start_locals_def start_world_def loop_retry_step
          loop_chunk_step loop_done print_progress_def)
  then show ?thesis
    by (simp add: execute_file_request_def print_progress_def)
qed

subsection \<open>The callers\<close>

text \<open>
  Claim C9. Whatever filters it is given, \<^verbatim>\<open>list_files\<close> builds exactly one list
  request, and the query string of that request begins with the clause
  \<^verbatim>\<open>trashed = false\<close>: the clause is the whole query, or the joiner \<open>and\<close> between
  two spaces follows it.
\<close>

theorem list_files_trashed_first:
  "\<exists>rest. built (list_files svc rnd w name_equals name_contains mimetype parents_in n
                    supports_all_drives) =
            [FilesList (''trashed = false'' @ rest) n supports_all_drives supports_all_drives]
          \<and> (rest = [] \<or> prefix '' and '' rest)"
  by (auto simp: list_files_def make_querystring_def make_query_clause_def Let_def
        split: option.splits)

text \<open>
  Claim C10. Called with a file id and no modification (no parents to remove or to
  add, no name, no media, \<^verbatim>\<open>supports_all_drives\<close> false), \<^verbatim>\<open>update_file\<close> builds no
  request, returns \<^verbatim>\<open>None\<close> and leaves the world as it was. Empty lists of parents
  and an empty name count as no modification.
\<close>

theorem update_file_noop:
  "update_file svc rnd w file_id None None None None False =
     \<lparr>built = [], returned = Some (Inr RNone, w)\<rparr>
   \<and> update_file svc rnd w file_id (Some []) (Some []) (Some []) None False =
     \<lparr>built = [], returned = Some (Inr RNone, w)\<rparr>"
  by (simp add: update_file_def)

text \<open>With a modification the request is built: here a new name.\<close>

lemma update_file_with_name:
  "built (update_file svc rnd w file_id None None (Some ''x'') None False) =
     [FilesUpdate [(''fileId'', KwStr file_id), (''body'', KwBody [(''name'', ''x'')])]]"
  by (simp add: update_file_def Let_def)

end
